theory Spec2Isabelle
  imports Main "HOL-Library.AList"
begin

section \<open>JSON-shaped Python values\<close>

text \<open>
  The two configuration documents of \<^verbatim>\<open>config_manager.py\<close> are what
  \<^verbatim>\<open>json.load\<close> returns: nested dicts with string keys, lists, strings,
  integers, booleans and \<^verbatim>\<open>None\<close>. A dict is an association list in insertion
  order; a well-formed dict has every key once. Floating point numbers are left out.
  Strings are byte strings (UTF-8), on which equality, emptiness and splitting at the
  ASCII dot agree with Python's code points.
\<close>

datatype json =
    JNull
  | JBool bool
  | JInt int
  | JStr string
  | JList "json list"
  | JDict "(string \<times> json) list"

type_synonym dict = "(string \<times> json) list"

datatype py_error =
    TypeError
  | AttributeError
  | KeyError
  | IndexError
  | FileNotFoundError
  | PermissionError
  | IsADirectoryError
  | UnicodeDecodeError
  | OSError

text \<open>Python's \<^verbatim>\<open>d[k] = v\<close>: an existing key keeps its place, a new key goes last.\<close>

abbreviation dict_set :: "dict \<Rightarrow> string \<Rightarrow> json \<Rightarrow> dict" where
  "dict_set d k v \<equiv> AList.update k v d"

text \<open>\<^verbatim>\<open>key_path.split('.')\<close>: never the empty list.\<close>

fun split_dot :: "string \<Rightarrow> string list" where
  "split_dot [] = [[]]"
| "split_dot (c # cs) =
     (if c = CHR ''.'' then [] # split_dot cs
      else (case split_dot cs of
              [] \<Rightarrow> [[c]]
            | w # ws \<Rightarrow> (c # w) # ws))"

section \<open>Nested access\<close>

text \<open>
  \<^verbatim>\<open>_get_nested_value\<close>: \<^verbatim>\<open>current = current[key]\<close> for each key, with
  \<^verbatim>\<open>KeyError\<close> (key absent from a dict) and \<^verbatim>\<open>TypeError\<close> (a string key
  indexing a string, list, number, boolean or \<^verbatim>\<open>None\<close>) caught and turned into
  \<^verbatim>\<open>None\<close>.
\<close>

fun get_nested_keys :: "json \<Rightarrow> string list \<Rightarrow> json" where
  "get_nested_keys current [] = current"
| "get_nested_keys current (key # keys) =
     (case current of
        JDict d \<Rightarrow> (case map_of d key of
                      Some v \<Rightarrow> get_nested_keys v keys
                    | None \<Rightarrow> JNull)
      | _ \<Rightarrow> JNull)"

definition get_nested_value :: "dict \<Rightarrow> string \<Rightarrow> json" where
  "get_nested_value config key_path = get_nested_keys (JDict config) (split_dot key_path)"

text \<open>
  \<^verbatim>\<open>_set_nested_value\<close>, with the in-place mutation returned as the new dict.
  For every key but the last, \<^verbatim>\<open>key not in current\<close> creates an empty dict and
  the walk descends. When \<^verbatim>\<open>current\<close> is not a dict, the membership test, the
  indexing or the item assignment raises \<^verbatim>\<open>TypeError\<close>: nothing catches it.
\<close>

fun set_nested_keys :: "dict \<Rightarrow> string list \<Rightarrow> json \<Rightarrow> py_error + dict" where
  "set_nested_keys current [] v = Inl IndexError"
| "set_nested_keys current [key] v = Inr (dict_set current key v)"
| "set_nested_keys current (key # k' # keys) v =
     (case map_of current key of
        None \<Rightarrow>
          (case set_nested_keys [] (k' # keys) v of
             Inl e \<Rightarrow> Inl e
           | Inr d \<Rightarrow> Inr (dict_set current key (JDict d)))
      | Some (JDict sub) \<Rightarrow>
          (case set_nested_keys sub (k' # keys) v of
             Inl e \<Rightarrow> Inl e
           | Inr d \<Rightarrow> Inr (dict_set current key (JDict d)))
      | Some _ \<Rightarrow> Inl TypeError)"

definition set_nested_value :: "dict \<Rightarrow> string \<Rightarrow> json \<Rightarrow> py_error + dict" where
  "set_nested_value config key_path v = set_nested_keys config (split_dot key_path) v"

section \<open>Merging\<close>

text \<open>
  \<^verbatim>\<open>_merge_configs\<close>: the loop over \<^verbatim>\<open>user.items()\<close> with \<^verbatim>\<open>result\<close>
  (a copy of the default) threaded through.
\<close>

fun merge_configs :: "dict \<Rightarrow> dict \<Rightarrow> dict" where
  "merge_configs result [] = result"
| "merge_configs result ((key, v) # user) =
     merge_configs
       (case map_of result key of
          Some (JDict d) \<Rightarrow>
            (case v of
               JDict u \<Rightarrow> dict_set result key (JDict (merge_configs d u))
             | _ \<Rightarrow> dict_set result key v)
        | _ \<Rightarrow> dict_set result key v)
       user"


section \<open>The environment: files, home directory, standard output\<close>

text \<open>
  A file is described by what \<^verbatim>\<open>Path.exists\<close> and \<^verbatim>\<open>open\<close> observe.
  \<open>Unopenable e\<close> exists but \<^verbatim>\<open>open\<close> raises \<open>e\<close> (with
  \<open>FileNotFoundError\<close> for a file removed between the two calls). The text of a
  JSON file is described by what \<^verbatim>\<open>json.load\<close> does with it; writing a
  document with \<^verbatim>\<open>json.dump\<close> and reading it back gives the document.
\<close>

datatype 'a file_node = Absent | Unopenable py_error | Readable 'a

datatype json_text = Undecodable | Malformed | Document json

datatype write_outcome = Write_ok | Open_fails | Write_fails

datatype message = SharedLoadError | LocalLoadError | SharedSaveError | LocalSaveError

type_synonym unicode = "nat list"

record env =
  shared_config_file :: "json_text file_node"
  local_config_file :: "json_text file_node"
  gitignore_file :: "unicode file_node"
  shared_write :: write_outcome
  local_write :: write_outcome
  gitignore_write :: write_outcome
  home_desktop :: string
  path_exists :: "string \<Rightarrow> bool"
  fd_open :: "int \<Rightarrow> bool"
  stdout :: "message list"

section \<open>ConfigManager\<close>

record config_manager =
  default_shared_config :: dict
  default_local_config :: dict
  shared_config :: dict
  local_config :: dict

definition builtin_shared_config :: dict where
  "builtin_shared_config =
     [(''app'', JDict
         [(''title'', JStr ''Kindle2Markdown''),
          (''default_pages'', JInt 100),
          (''default_page_key'', JStr ''right''),
          (''default_ocr_lang'', JStr ''jpn+jpn_vert+eng''),
          (''window_keyword'', JStr ''Kindle for PC'')]),
      (''capture'', JDict
         [(''default_region'', JDict
             [(''x'', JInt 0), (''y'', JInt 0), (''width'', JInt 1920), (''height'', JInt 1080)]),
          (''screenshot_format'', JStr ''png''),
          (''filename_format'', JStr ''screenshot_{:04d}.png'')]),
      (''ocr'', JDict
         [(''tesseract_config'', JStr ''--psm 6''),
          (''supported_languages'',
             JList [JStr ''jpn'', JStr ''jpn_vert'', JStr ''eng'', JStr ''jpn+jpn_vert+eng'']),
          (''output_format'', JStr ''markdown'')])]"

definition builtin_local_config :: "string \<Rightarrow> dict" where
  "builtin_local_config desktop =
     [(''paths'', JDict
         [(''save_folder'', JStr desktop),
          (''tesseract_cmd'',
             JStr (''C:'' @ [CHR 0x5C] @ ''Program Files'' @ [CHR 0x5C] @ ''Tesseract-OCR''
                   @ [CHR 0x5C] @ ''tesseract.exe'')),
          (''poppler_path'',
             JStr (''C:'' @ [CHR 0x5C] @ ''Program Files'' @ [CHR 0x5C] @ ''poppler''
                   @ [CHR 0x5C] @ ''bin''))]),
      (''user_preferences'', JDict
         [(''last_used_region'', JNull),
          (''last_save_folder'', JNull),
          (''recent_projects'', JList [])])]"

text \<open>
  \<^verbatim>\<open>load_shared_config\<close> and \<^verbatim>\<open>load_local_config\<close>. The handler is
  \<^verbatim>\<open>except (json.JSONDecodeError, FileNotFoundError)\<close>; any other error of
  \<^verbatim>\<open>open\<close>, a decoding error, and the \<^verbatim>\<open>AttributeError\<close> of
  \<^verbatim>\<open>user.items()\<close> on a JSON text that is not an object leave the method.
\<close>

definition load_config ::
  "message \<Rightarrow> dict \<Rightarrow> json_text file_node \<Rightarrow> message list \<Rightarrow> py_error + (dict \<times> message list)" where
  "load_config msg dflt file out =
     (case file of
        Absent \<Rightarrow> Inr (dflt, out)
      | Unopenable e \<Rightarrow>
          (if e = FileNotFoundError then Inr (dflt, out @ [msg]) else Inl e)
      | Readable Undecodable \<Rightarrow> Inl UnicodeDecodeError
      | Readable Malformed \<Rightarrow> Inr (dflt, out @ [msg])
      | Readable (Document (JDict user)) \<Rightarrow> Inr (merge_configs dflt user, out)
      | Readable (Document _) \<Rightarrow> Inl AttributeError)"

definition load_shared_config :: "config_manager \<Rightarrow> env \<Rightarrow> py_error + (dict \<times> env)" where
  "load_shared_config cm e =
     (case load_config SharedLoadError (default_shared_config cm) (shared_config_file e) (stdout e) of
        Inl err \<Rightarrow> Inl err
      | Inr (d, out) \<Rightarrow> Inr (d, e\<lparr>stdout := out\<rparr>))"

definition load_local_config :: "config_manager \<Rightarrow> env \<Rightarrow> py_error + (dict \<times> env)" where
  "load_local_config cm e =
     (case load_config LocalLoadError (default_local_config cm) (local_config_file e) (stdout e) of
        Inl err \<Rightarrow> Inl err
      | Inr (d, out) \<Rightarrow> Inr (d, e\<lparr>stdout := out\<rparr>))"

text \<open>\<^verbatim>\<open>__init__\<close>: the defaults, then the shared and the local document.\<close>

definition init :: "env \<Rightarrow> py_error + (config_manager \<times> env)" where
  "init e =
     (let cm0 = \<lparr>default_shared_config = builtin_shared_config,
                 default_local_config = builtin_local_config (home_desktop e),
                 shared_config = [], local_config = []\<rparr>
      in case load_shared_config cm0 e of
           Inl err \<Rightarrow> Inl err
         | Inr (sc, e1) \<Rightarrow>
             (case load_local_config (cm0\<lparr>shared_config := sc\<rparr>) e1 of
                Inl err \<Rightarrow> Inl err
              | Inr (lc, e2) \<Rightarrow> Inr (cm0\<lparr>shared_config := sc, local_config := lc\<rparr>, e2)))"

text \<open>
  \<^verbatim>\<open>save_shared_config\<close> and \<^verbatim>\<open>save_local_config\<close>: \<^verbatim>\<open>except Exception\<close>
  turns every failure into \<^verbatim>\<open>False\<close>. A failed \<^verbatim>\<open>open\<close> leaves the file
  as it was; a failure while writing leaves a truncated text.
\<close>

definition save_config ::
  "message \<Rightarrow> dict \<Rightarrow> write_outcome \<Rightarrow> json_text file_node \<Rightarrow> message list
     \<Rightarrow> bool \<times> json_text file_node \<times> message list" where
  "save_config msg doc w file out =
     (case w of
        Write_ok \<Rightarrow> (True, Readable (Document (JDict doc)), out)
      | Open_fails \<Rightarrow> (False, file, out @ [msg])
      | Write_fails \<Rightarrow> (False, Readable Malformed, out @ [msg]))"

definition save_shared_config :: "config_manager \<Rightarrow> env \<Rightarrow> bool \<times> env" where
  "save_shared_config cm e =
     (case save_config SharedSaveError (shared_config cm) (shared_write e)
             (shared_config_file e) (stdout e) of
        (ok, f, out) \<Rightarrow> (ok, e\<lparr>shared_config_file := f, stdout := out\<rparr>))"

definition save_local_config :: "config_manager \<Rightarrow> env \<Rightarrow> bool \<times> env" where
  "save_local_config cm e =
     (case save_config LocalSaveError (local_config cm) (local_write e)
             (local_config_file e) (stdout e) of
        (ok, f, out) \<Rightarrow> (ok, e\<lparr>local_config_file := f, stdout := out\<rparr>))"

text \<open>\<^verbatim>\<open>get\<close>: the local document first, then the shared one, then the default.\<close>

definition get :: "config_manager \<Rightarrow> string \<Rightarrow> json \<Rightarrow> json" where
  "get cm key_path dflt =
     (let v = get_nested_value (local_config cm) key_path in
      if v \<noteq> JNull then v
      else (let v = get_nested_value (shared_config cm) key_path in
            if v \<noteq> JNull then v else dflt))"

definition set_shared :: "config_manager \<Rightarrow> string \<Rightarrow> json \<Rightarrow> py_error + config_manager" where
  "set_shared cm key_path v =
     (case set_nested_value (shared_config cm) key_path v of
        Inl err \<Rightarrow> Inl err
      | Inr d \<Rightarrow> Inr (cm\<lparr>shared_config := d\<rparr>))"

definition set_local :: "config_manager \<Rightarrow> string \<Rightarrow> json \<Rightarrow> py_error + config_manager" where
  "set_local cm key_path v =
     (case set_nested_value (local_config cm) key_path v of
        Inl err \<Rightarrow> Inl err
      | Inr d \<Rightarrow> Inr (cm\<lparr>local_config := d\<rparr>))"


section \<open>Truth values and equality of Python values\<close>

text \<open>What \<^verbatim>\<open>if value:\<close> tests.\<close>

fun truthy :: "json \<Rightarrow> bool" where
  "truthy JNull = False"
| "truthy (JBool b) = b"
| "truthy (JInt i) = (i \<noteq> 0)"
| "truthy (JStr s) = (s \<noteq> [])"
| "truthy (JList xs) = (xs \<noteq> [])"
| "truthy (JDict d) = (d \<noteq> [])"

text \<open>
  Python's \<^verbatim>\<open>==\<close>: \<^verbatim>\<open>True == 1\<close> and \<^verbatim>\<open>False == 0\<close>, lists compare
  element by element, dicts compare as mappings (equal sizes, and every key of the left
  one is in the right one with an equal value).
\<close>

fun py_eq :: "json \<Rightarrow> json \<Rightarrow> bool"
  and py_eq_list :: "json list \<Rightarrow> json list \<Rightarrow> bool"
  and py_eq_items :: "dict \<Rightarrow> dict \<Rightarrow> bool" where
  "py_eq JNull b = (b = JNull)"
| "py_eq (JBool x) b =
     (case b of JBool y \<Rightarrow> x = y | JInt j \<Rightarrow> (if x then 1 else 0) = j | _ \<Rightarrow> False)"
| "py_eq (JInt i) b =
     (case b of JInt j \<Rightarrow> i = j | JBool y \<Rightarrow> i = (if y then 1 else 0) | _ \<Rightarrow> False)"
| "py_eq (JStr s) b = (b = JStr s)"
| "py_eq (JList xs) b = (case b of JList ys \<Rightarrow> py_eq_list xs ys | _ \<Rightarrow> False)"
| "py_eq (JDict d) b =
     (case b of JDict e \<Rightarrow> length d = length e \<and> py_eq_items d e | _ \<Rightarrow> False)"
| "py_eq_list [] ys = (ys = [])"
| "py_eq_list (x # xs) ys =
     (case ys of [] \<Rightarrow> False | y # ys' \<Rightarrow> py_eq x y \<and> py_eq_list xs ys')"
| "py_eq_items [] e = True"
| "py_eq_items ((k, v) # d) e =
     ((case map_of e k of None \<Rightarrow> False | Some w \<Rightarrow> py_eq v w) \<and> py_eq_items d e)"

text \<open>\<^verbatim>\<open>d.get(k)\<close>.\<close>

definition dict_get :: "dict \<Rightarrow> string \<Rightarrow> json" where
  "dict_get d k = (case map_of d k of None \<Rightarrow> JNull | Some v \<Rightarrow> v)"

section \<open>Domain accessors\<close>

definition region_dict :: "int \<Rightarrow> int \<Rightarrow> int \<Rightarrow> int \<Rightarrow> json" where
  "region_dict x y width height =
     JDict [(''x'', JInt x), (''y'', JInt y), (''width'', JInt width), (''height'', JInt height)]"

definition update_capture_region ::
  "config_manager \<Rightarrow> env \<Rightarrow> int \<Rightarrow> int \<Rightarrow> int \<Rightarrow> int \<Rightarrow> py_error + (config_manager \<times> env)" where
  "update_capture_region cm e x y width height =
     (let region = region_dict x y width height in
      case set_local cm ''user_preferences.last_used_region'' region of
        Inl err \<Rightarrow> Inl err
      | Inr cm' \<Rightarrow> Inr (cm', snd (save_local_config cm' e)))"

definition get_capture_region :: "config_manager \<Rightarrow> json" where
  "get_capture_region cm =
     (let region = get cm ''user_preferences.last_used_region'' JNull in
      if truthy region then region
      else (let region = get cm ''capture.default_region'' JNull in
            if truthy region then region
            else region_dict 0 0 1920 1080))"

definition set_capture_region ::
  "config_manager \<Rightarrow> env \<Rightarrow> int \<Rightarrow> int \<Rightarrow> int \<Rightarrow> int \<Rightarrow> py_error + (config_manager \<times> env)" where
  "set_capture_region cm e x y width height =
     (let region = region_dict x y width height in
      case set_local cm ''user_preferences.last_used_region'' region of
        Inl err \<Rightarrow> Inl err
      | Inr cm' \<Rightarrow> Inr (cm', snd (save_local_config cm' e)))"

text \<open>
  \<^verbatim>\<open>os.path.exists\<close>: a string is a path, an integer (a boolean too) is a file
  descriptor, and any other argument makes \<^verbatim>\<open>os.stat\<close> raise \<^verbatim>\<open>TypeError\<close>.
\<close>

definition os_path_exists :: "env \<Rightarrow> json \<Rightarrow> py_error + bool" where
  "os_path_exists e v =
     (case v of
        JStr s \<Rightarrow> Inr (path_exists e s)
      | JInt i \<Rightarrow> Inr (fd_open e i)
      | JBool b \<Rightarrow> Inr (fd_open e (if b then 1 else 0))
      | _ \<Rightarrow> Inl TypeError)"

definition get_save_folder :: "config_manager \<Rightarrow> env \<Rightarrow> py_error + json" where
  "get_save_folder cm e =
     (let folder = get cm ''user_preferences.last_save_folder'' JNull;
          fallback =
            (let folder = get cm ''paths.save_folder'' JNull in
             if truthy folder then folder else JStr (home_desktop e))
      in if truthy folder then
           (case os_path_exists e folder of
              Inl err \<Rightarrow> Inl err
            | Inr ex \<Rightarrow> Inr (if ex then folder else fallback))
         else Inr fallback)"

definition set_save_folder ::
  "config_manager \<Rightarrow> env \<Rightarrow> json \<Rightarrow> py_error + (config_manager \<times> env)" where
  "set_save_folder cm e folder_path =
     (case set_local cm ''user_preferences.last_save_folder'' folder_path of
        Inl err \<Rightarrow> Inl err
      | Inr cm' \<Rightarrow> Inr (cm', snd (save_local_config cm' e)))"

text \<open>
  Iterating a value, as the list comprehension of \<^verbatim>\<open>add_recent_project\<close> does:
  a list gives its elements, a dict its keys, a string its characters, anything else
  raises \<^verbatim>\<open>TypeError\<close>.
\<close>

definition py_iter :: "json \<Rightarrow> py_error + json list" where
  "py_iter v =
     (case v of
        JList xs \<Rightarrow> Inr xs
      | JDict d \<Rightarrow> Inr (map (\<lambda>kv. JStr (fst kv)) d)
      | JStr s \<Rightarrow> Inr (map (\<lambda>c. JStr [c]) s)
      | _ \<Rightarrow> Inl TypeError)"

text \<open>
  \<^verbatim>\<open>[p for p in recent if p.get("title") != project_info.get("title")]\<close>:
  \<^verbatim>\<open>.get\<close> on anything but a dict raises \<^verbatim>\<open>AttributeError\<close>.
\<close>

fun filter_recent :: "json list \<Rightarrow> json \<Rightarrow> py_error + json list" where
  "filter_recent [] project_info = Inr []"
| "filter_recent (p # ps) project_info =
     (case p of
        JDict pd \<Rightarrow>
          (case project_info of
             JDict pinfo \<Rightarrow>
               (case filter_recent ps project_info of
                  Inl err \<Rightarrow> Inl err
                | Inr rest \<Rightarrow>
                    Inr (if \<not> py_eq (dict_get pd ''title'') (dict_get pinfo ''title'')
                         then p # rest else rest))
           | _ \<Rightarrow> Inl AttributeError)
      | _ \<Rightarrow> Inl AttributeError)"

definition add_recent_project ::
  "config_manager \<Rightarrow> env \<Rightarrow> json \<Rightarrow> py_error + (config_manager \<times> env)" where
  "add_recent_project cm e project_info =
     (case py_iter (get cm ''user_preferences.recent_projects'' (JList [])) of
        Inl err \<Rightarrow> Inl err
      | Inr recent \<Rightarrow>
          (case filter_recent recent project_info of
             Inl err \<Rightarrow> Inl err
           | Inr kept \<Rightarrow>
               (case set_local cm ''user_preferences.recent_projects''
                       (JList (take 10 (project_info # kept))) of
                  Inl err \<Rightarrow> Inl err
                | Inr cm' \<Rightarrow> Inr (cm', snd (save_local_config cm' e)))))"

definition get_recent_projects :: "config_manager \<Rightarrow> json" where
  "get_recent_projects cm = get cm ''user_preferences.recent_projects'' (JList [])"

section \<open>The ignore file\<close>

text \<open>
  The text of \<^verbatim>\<open>.gitignore\<close> is a list of code points. The file is read in text
  mode, which turns \<^verbatim>\<open>\r\n\<close> and \<^verbatim>\<open>\r\<close> into \<^verbatim>\<open>\n\<close>; it is written
  with the line separator of POSIX, unchanged.
\<close>

fun universal_newlines :: "unicode \<Rightarrow> unicode" where
  "universal_newlines [] = []"
| "universal_newlines [c] = (if c = 13 then [10] else [c])"
| "universal_newlines (c # d # cs) =
     (if c = 13 then
        (if d = 10 then 10 # universal_newlines cs else 10 # universal_newlines (d # cs))
      else c # universal_newlines (d # cs))"

text \<open>The line boundaries of \<^verbatim>\<open>str.splitlines\<close>.\<close>

definition is_linebreak :: "nat \<Rightarrow> bool" where
  "is_linebreak c \<longleftrightarrow> c \<in> {10, 11, 12, 13, 28, 29, 30, 133, 8232, 8233}"

fun splitlines :: "unicode \<Rightarrow> unicode list" where
  "splitlines [] = []"
| "splitlines [c] = (if is_linebreak c then [[]] else [[c]])"
| "splitlines (c # d # cs) =
     (if c = 13 \<and> d = 10 then [] # splitlines cs
      else if is_linebreak c then [] # splitlines (d # cs)
      else (case splitlines (d # cs) of
              [] \<Rightarrow> [[c]]
            | l # ls \<Rightarrow> (c # l) # ls))"

text \<open>The white space of \<^verbatim>\<open>str.strip\<close>.\<close>

definition is_space :: "nat \<Rightarrow> bool" where
  "is_space c \<longleftrightarrow>
     (9 \<le> c \<and> c \<le> 13) \<or> (28 \<le> c \<and> c \<le> 32) \<or> c = 133 \<or> c = 160 \<or> c = 5760
     \<or> (8192 \<le> c \<and> c \<le> 8202) \<or> c = 8232 \<or> c = 8233 \<or> c = 8239 \<or> c = 8287
     \<or> c = 12288"

definition strip :: "unicode \<Rightarrow> unicode" where
  "strip s = rev (dropWhile is_space (rev (dropWhile is_space s)))"

text \<open>\<^verbatim>\<open>"\n".join(entries)\<close>.\<close>

fun join_lines :: "unicode list \<Rightarrow> unicode" where
  "join_lines [] = []"
| "join_lines [l] = l"
| "join_lines (l # m # ls) = l @ 10 # join_lines (m # ls)"

text \<open>
  The twelve entries of \<^verbatim>\<open>entries_to_add\<close>: a comment, \<^verbatim>\<open>config.local.json\<close>,
  an empty line, a comment, \<^verbatim>\<open>output.md\<close>, \<^verbatim>\<open>*.md\<close>, \<^verbatim>\<open>!README.md\<close>, an
  empty line, a comment, \<^verbatim>\<open>screenshot_*.png\<close>, \<^verbatim>\<open>screenshots/\<close>, an empty line.
\<close>

definition entries_to_add :: "unicode list" where
  "entries_to_add =
      [
       [35, 32, 12525, 12540, 12459, 12523, 35373, 23450, 12501, 12449, 12452, 12523, 65288, 21508, 80, 67, 22266, 26377, 65289],
       [99, 111, 110, 102, 105, 103, 46, 108, 111, 99, 97, 108, 46, 106, 115, 111, 110],
       [],
       [35, 32, 79, 67, 82, 20986, 21147, 12501, 12449, 12452, 12523],
       [111, 117, 116, 112, 117, 116, 46, 109, 100],
       [42, 46, 109, 100],
       [33, 82, 69, 65, 68, 77, 69, 46, 109, 100],
       [],
       [35, 32, 12473, 12463, 12522, 12540, 12531, 12471, 12519, 12483, 12488],
       [115, 99, 114, 101, 101, 110, 115, 104, 111, 116, 95, 42, 46, 112, 110, 103],
       [115, 99, 114, 101, 101, 110, 115, 104, 111, 116, 115, 47],
       []
      ]"

text \<open>
  \<^verbatim>\<open>create_gitignore\<close>. No error is caught here: a failing \<^verbatim>\<open>open\<close> or
  \<^verbatim>\<open>write\<close> leaves the method as an exception.
\<close>

definition create_gitignore :: "env \<Rightarrow> py_error + env" where
  "create_gitignore e =
     (case (case gitignore_file e of
              Absent \<Rightarrow> Inr ([], [])
            | Unopenable err \<Rightarrow> Inl err
            | Readable raw \<Rightarrow> Inr (raw, splitlines (universal_newlines raw))) of
        Inl err \<Rightarrow> Inl err
      | Inr (raw, existing_entries) \<Rightarrow>
          (let entries_to_write =
                 filter (\<lambda>entry. entry \<notin> set existing_entries \<and> strip entry \<noteq> [])
                   entries_to_add
           in if entries_to_write = [] then Inr e
              else (case gitignore_write e of
                      Open_fails \<Rightarrow> Inl PermissionError
                    | Write_fails \<Rightarrow> Inl OSError
                    | Write_ok \<Rightarrow>
                        Inr (e\<lparr>gitignore_file :=
                                 Readable (raw
                                   @ (if existing_entries \<noteq> [] \<and> last existing_entries \<noteq> []
                                      then [10] else [])
                                   @ join_lines entries_to_write @ [10])\<rparr>))))"

section \<open>The lookup rule in the words of the specification\<close>

text \<open>
  The walk of the specification: successive key lookups, where an absent key or an
  indexed non-mapping means that the path is not found.
\<close>

fun lookup_path :: "json \<Rightarrow> string list \<Rightarrow> json option" where
  "lookup_path doc [] = Some doc"
| "lookup_path doc (key # keys) =
     (case doc of
        JDict d \<Rightarrow> (case map_of d key of None \<Rightarrow> None | Some v \<Rightarrow> lookup_path v keys)
      | _ \<Rightarrow> None)"

text \<open>The value of a document at a dotted path, when it is present and not null.\<close>

definition found_value :: "dict \<Rightarrow> string \<Rightarrow> json option" where
  "found_value doc key_path =
     (case lookup_path (JDict doc) (split_dot key_path) of
        None \<Rightarrow> None
      | Some v \<Rightarrow> (if v = JNull then None else Some v))"

text \<open>Local value, else shared value, else the default.\<close>

definition get_spec :: "dict \<Rightarrow> dict \<Rightarrow> string \<Rightarrow> json \<Rightarrow> json" where
  "get_spec local shared key_path dflt =
     (case found_value local key_path of
        Some v \<Rightarrow> v
      | None \<Rightarrow> (case found_value shared key_path of Some v \<Rightarrow> v | None \<Rightarrow> dflt))"

section \<open>Example states\<close>

text \<open>A machine with none of the three files, and the store constructed on it.\<close>

definition env0 :: env where
  "env0 = \<lparr>shared_config_file = Absent, local_config_file = Absent, gitignore_file = Absent,
           shared_write = Write_ok, local_write = Write_ok, gitignore_write = Write_ok,
           home_desktop = ''/home/u/Desktop'', path_exists = (\<lambda>p. False),
           fd_open = (\<lambda>i. False), stdout = []\<rparr>"

definition cm0 :: config_manager where
  "cm0 = \<lparr>default_shared_config = builtin_shared_config,
          default_local_config = builtin_local_config ''/home/u/Desktop'',
          shared_config = builtin_shared_config,
          local_config = builtin_local_config ''/home/u/Desktop''\<rparr>"

section \<open>Properties: lookup\<close>

lemma get_nested_keys_lookup:
  "get_nested_keys doc keys = (case lookup_path doc keys of None \<Rightarrow> JNull | Some v \<Rightarrow> v)"
  by (induction doc keys rule: get_nested_keys.induct)
     (simp_all split: json.splits option.splits)

lemma found_value_nested:
  "found_value doc p =
     (if get_nested_value doc p = JNull then None else Some (get_nested_value doc p))"
  by (simp add: found_value_def get_nested_value_def get_nested_keys_lookup
      split: option.splits)

lemma init_env0: "init env0 = Inr (cm0, env0)"
  by (simp add: init_def env0_def cm0_def load_shared_config_def load_local_config_def
      load_config_def)

text \<open>
  C3: \<^verbatim>\<open>get(path, default)\<close> is the local document's value at the path when
  present and not null, else the shared document's value when present and not null,
  else the default; an absent component and an indexed non-mapping both count as not
  found.
\<close>

theorem get_refines_spec:
  "get cm key_path dflt = get_spec (local_config cm) (shared_config cm) key_path dflt"
  by (simp add: get_def get_spec_def found_value_nested Let_def)

theorem get_refines_spec_witness:
  "get cm0 ''app.title'' JNull = JStr ''Kindle2Markdown''
   \<and> get cm0 ''user_preferences.last_used_region'' (JInt 7) = JInt 7"
  using get_refines_spec [of cm0 "''app.title''" JNull]
    get_refines_spec [of cm0 "''user_preferences.last_used_region''" "JInt 7"]
  by (simp add: get_spec_def found_value_def cm0_def builtin_shared_config_def
      builtin_local_config_def)

end
